theory Spec2Isabelle
  imports Main "HOL-Library.Multiset" "HOL-Library.Product_Lexorder"
begin

section \<open>The to-do list of \<open>main.py\<close>\<close>

text \<open>
  The program keeps a list of tasks in a \<open>TodoList\<close> object. Every task is a dictionary
  with the five keys \<open>id\<close>, \<open>name\<close>, \<open>priority\<close>, \<open>done\<close> and \<open>created_at\<close>; it is
  modelled as a record with one field per key. The priority is the string the code
  stores, so that a string outside \<open>high\<close>, \<open>medium\<close>, \<open>low\<close> can be written down.
\<close>

subsection \<open>Data\<close>

record task =
  t_id :: int
  t_name :: string
  t_priority :: string
  t_done :: bool
  t_created_at :: string

text \<open>
  The state is the object (\<open>tasks\<close>, \<open>filename\<close>) together with the two parts of the
  environment the methods act on: the lines printed so far and the files on disk. Every
  \<open>print\<close> adds one entry to \<open>stdout\<close>; a file that is opened for writing is bound in
  \<open>fs\<close> to the text written to it.
\<close>

record todo =
  tasks :: "task list"
  filename :: string
  stdout :: "string list"
  fs :: "string \<rightharpoonup> string"

definition print :: "string \<Rightarrow> todo \<Rightarrow> todo" where
  "print s w = w\<lparr>stdout := stdout w @ [s]\<rparr>"

subsection \<open>Formatting\<close>

text \<open>The decimal text of an integer, as an f-string renders it.\<close>

definition digit_char :: "nat \<Rightarrow> char" where
  "digit_char d = ''0123456789'' ! d"

function str_nat :: "nat \<Rightarrow> string" where
  "str_nat n = (if n < 10 then [digit_char n] else str_nat (n div 10) @ [digit_char (n mod 10)])"
  by pat_completeness auto
termination
  by (relation "measure (\<lambda>n. n)") auto

declare str_nat.simps [simp del]

definition str_int :: "int \<Rightarrow> string" where
  "str_int i = (if i < 0 then CHR ''-'' # str_nat (nat (- i)) else str_nat (nat i))"

text \<open>\<open>sep.join(xs)\<close>\<close>

fun join :: "string \<Rightarrow> string list \<Rightarrow> string" where
  "join sep [] = []"
| "join sep [x] = x"
| "join sep (x # y # ys) = x @ sep @ join sep (y # ys)"

subsection \<open>Priorities\<close>

datatype fore = RED | YELLOW | GREEN

text \<open>The dictionary \<open>PRIORITY_COLORS\<close>, in the order it is written.\<close>

definition PRIORITY_COLORS :: "(string \<times> fore) list" where
  "PRIORITY_COLORS = [(''high'', RED), (''medium'', YELLOW), (''low'', GREEN)]"

definition keys :: "('k \<times> 'v) list \<Rightarrow> 'k list" where
  "keys d = map fst d"

text \<open>\<open>priority in PRIORITY_COLORS\<close>\<close>

definition in_PRIORITY_COLORS :: "string \<Rightarrow> bool" where
  "in_PRIORITY_COLORS p \<longleftrightarrow> p \<in> set (keys PRIORITY_COLORS)"

definition priority_order :: "(string \<times> int) list" where
  "priority_order = [(''high'', 0), (''medium'', 1), (''low'', 2)]"

text \<open>\<open>priority_order.get(p, 999)\<close>\<close>

definition priority_rank :: "string \<Rightarrow> int" where
  "priority_rank p = (case map_of priority_order p of Some r \<Rightarrow> r | None \<Rightarrow> 999)"

text \<open>The sort key \<open>(x["done"], priority_order.get(x["priority"], 999))\<close>.\<close>

definition sort_key_of :: "task \<Rightarrow> bool \<times> int" where
  "sort_key_of x = (t_done x, priority_rank (t_priority x))"

subsection \<open>Sorting\<close>

text \<open>
  \<open>list.sort(key=...)\<close> is the stable sort of the language; it is modelled by the stable
  insertion sort \<^const>\<open>sort_key\<close>. Tuples compare lexicographically, \<open>False\<close>
  below \<open>True\<close>.
\<close>

definition sort_tasks :: "todo \<Rightarrow> todo" where
  "sort_tasks w = w\<lparr>tasks := sort_key sort_key_of (tasks w)\<rparr>"

subsection \<open>Adding\<close>

text \<open>
  \<open>add_task(name, priority)\<close>; the third argument is the text of
  \<open>datetime.datetime.now().strftime("%Y-%m-%d %H:%M:%S")\<close> at the call.
\<close>

definition add_task :: "string \<Rightarrow> string \<Rightarrow> string \<Rightarrow> todo \<Rightarrow> todo" where
  "add_task name priority now w =
     (if \<not> in_PRIORITY_COLORS priority
      then print (''Invalid priority. Choose from: '' @ join '','' (keys PRIORITY_COLORS)) w
      else
        let task = \<lparr>t_id = int (length (tasks w)) + 1, t_name = name, t_priority = priority,
                    t_done = False, t_created_at = now\<rparr>;
            w1 = w\<lparr>tasks := tasks w @ [task]\<rparr>;
            w2 = sort_tasks w1
        in print (''Task added: '' @ name) w2)"

text \<open>A call that leaves the priority out takes the default of the signature.\<close>

definition add_task_default :: "string \<Rightarrow> string \<Rightarrow> todo \<Rightarrow> todo" where
  "add_task_default name now w = add_task name ''medium'' now w"

subsection \<open>Deleting\<close>

text \<open>
  The loop of \<open>delete_task\<close> over \<open>enumerate(self.tasks)\<close>: at a task with the id the task
  is popped, one line is printed and the method returns; at any other task the
  \<open>print\<close> that follows the \<open>if\<close> inside the loop body runs. The result is the list that
  is left and the lines printed, in order.
\<close>

fun delete_loop :: "int \<Rightarrow> task list \<Rightarrow> task list \<times> string list" where
  "delete_loop task_id [] = ([], [])"
| "delete_loop task_id (task # rest) =
     (if t_id task = task_id
      then (rest, [''Deleted task: '' @ t_name task])
      else
        let (rest', msgs) = delete_loop task_id rest
        in (task # rest', (''No task found with ID '' @ str_int task_id) # msgs))"

definition delete_task :: "int \<Rightarrow> todo \<Rightarrow> todo" where
  "delete_task task_id w =
     (let (ts, msgs) = delete_loop task_id (tasks w)
      in w\<lparr>tasks := ts, stdout := stdout w @ msgs\<rparr>)"

subsection \<open>Updating\<close>

text \<open>Truthiness of an argument that is \<open>None\<close> or a string.\<close>

fun truthy :: "string option \<Rightarrow> bool" where
  "truthy None = False"
| "truthy (Some s) = (s \<noteq> [])"

text \<open>
  The body of the loop of \<open>update_task\<close> at the task with the id. The name is assigned
  first; the priority is checked after that. The flag says whether the body reached
  \<open>Updated task\<close> (and the sort) or returned at the invalid priority.
\<close>

definition update_body :: "string option \<Rightarrow> string option \<Rightarrow> task \<Rightarrow> task \<times> bool" where
  "update_body name priority task =
     (let task1 = (if truthy name then task\<lparr>t_name := the name\<rparr> else task)
      in if truthy priority
         then (if in_PRIORITY_COLORS (the priority)
               then (task1\<lparr>t_priority := the priority\<rparr>, True)
               else (task1, False))
         else (task1, True))"

text \<open>The loop: \<open>None\<close> when it ends without a task with the id.\<close>

fun update_loop :: "int \<Rightarrow> string option \<Rightarrow> string option \<Rightarrow> task list \<Rightarrow> (task list \<times> bool) option" where
  "update_loop task_id name priority [] = None"
| "update_loop task_id name priority (task # rest) =
     (if t_id task = task_id
      then (let (task', ok) = update_body name priority task in Some (task' # rest, ok))
      else (case update_loop task_id name priority rest of
              None \<Rightarrow> None
            | Some (rest', ok) \<Rightarrow> Some (task # rest', ok)))"

definition update_task :: "int \<Rightarrow> string option \<Rightarrow> string option \<Rightarrow> todo \<Rightarrow> todo" where
  "update_task task_id name priority w =
     (case update_loop task_id name priority (tasks w) of
        None \<Rightarrow> print (''No task found with ID '' @ str_int task_id) w
      | Some (ts, ok) \<Rightarrow>
          if ok
          then sort_tasks (print (''Updated task '' @ str_int task_id) (w\<lparr>tasks := ts\<rparr>))
          else print (''Invalid priorty. Choose from: '' @ join '','' (keys PRIORITY_COLORS))
                 (w\<lparr>tasks := ts\<rparr>))"

subsection \<open>Marking\<close>

fun mark_loop :: "int \<Rightarrow> task list \<Rightarrow> (task list \<times> bool) option" where
  "mark_loop task_id [] = None"
| "mark_loop task_id (task # rest) =
     (if t_id task = task_id
      then Some (task\<lparr>t_done := \<not> t_done task\<rparr> # rest, \<not> t_done task)
      else (case mark_loop task_id rest of
              None \<Rightarrow> None
            | Some (rest', d) \<Rightarrow> Some (task # rest', d)))"

definition mark_done :: "int \<Rightarrow> todo \<Rightarrow> todo" where
  "mark_done task_id w =
     (case mark_loop task_id (tasks w) of
        None \<Rightarrow> print (''No task found with ID '' @ str_int task_id) w
      | Some (ts, d) \<Rightarrow>
          let status = (if d then ''completed'' else ''pending'')
          in sort_tasks
               (print (''Marked task '' @ str_int task_id @ '' as '' @ status) (w\<lparr>tasks := ts\<rparr>)))"

subsection \<open>Saving and loading\<close>




subsection \<open>Exporting\<close>

text \<open>
  The text of a list holding one string, as an f-string renders it: the \<open>repr\<close> of the
  string between brackets. The only list the program formats is \<open>['- [x] ']\<close>, whose
  string needs no escape.
\<close>

definition str_list1 :: "string \<Rightarrow> string" where
  "str_list1 s = ''['' @ [CHR 0x27] @ s @ [CHR 0x27] @ '']''"

definition priority_tag :: "task \<Rightarrow> string" where
  "priority_tag task =
     (if in_PRIORITY_COLORS (t_priority task) then ''[!'' @ t_priority task @ ''] '' else [])"

text \<open>The two loops of \<open>export_to_markdown\<close>, each giving the text it writes.\<close>

fun write_pending :: "task list \<Rightarrow> string" where
  "write_pending [] = []"
| "write_pending (task # rest) =
     (if \<not> t_done task
      then (let checkbox = ''- [ ] ''
            in checkbox @ priority_tag task @ t_name task @ ''\<newline>'' @ write_pending rest)
      else write_pending rest)"

fun write_completed :: "task list \<Rightarrow> string" where
  "write_completed [] = []"
| "write_completed (task # rest) =
     (if t_done task
      then (let checkbox = str_list1 ''- [x] ''
            in checkbox @ priority_tag task @ t_name task @ ''\<newline>'' @ write_completed rest)
      else write_completed rest)"

text \<open>
  \<open>export_to_markdown()\<close>; \<open>stamp_name\<close> and \<open>stamp_line\<close> are the texts of the two
  calls of \<open>datetime.datetime.now().strftime\<close>, the first for the file name. The result is
  the value returned (\<open>None\<close> when the method returns nothing) and the state.
\<close>

definition export_to_markdown :: "string \<Rightarrow> string \<Rightarrow> todo \<Rightarrow> string option \<times> todo" where
  "export_to_markdown stamp_name stamp_line w =
     (if tasks w = []
      then (None, print ''No tasks to export.'' w)
      else
        let fname = ''todo_export_'' @ stamp_name @ ''.md'';
            doc = ''# Todo List\<newline>\<newline>''
                  @ ''Exported on : '' @ stamp_line @ ''\<newline>\<newline>''
                  @ ''## Pending Tasks\<newline>\<newline>''
                  @ write_pending (tasks w)
                  @ ''\<newline>## Completed Tasks\<newline>\<newline>''
                  @ write_completed (tasks w);
            w1 = w\<lparr>fs := (fs w)(fname \<mapsto> doc)\<rparr>
        in (Some fname, print (''Tasks exported to '' @ fname) w1))"

section \<open>Concrete stores\<close>

text \<open>The inputs at which the properties below are evaluated.\<close>

definition store_empty :: todo where
  "store_empty = \<lparr>tasks = [], filename = ''tasks.json'', stdout = [], fs = Map.empty\<rparr>"

definition task_A :: task where
  "task_A = \<lparr>t_id = 1, t_name = ''A'', t_priority = ''high'', t_done = False,
             t_created_at = ''2024-01-01 09:00:00''\<rparr>"

definition task_B :: task where
  "task_B = \<lparr>t_id = 2, t_name = ''B'', t_priority = ''low'', t_done = False,
             t_created_at = ''2024-01-01 09:05:00''\<rparr>"

definition task_X :: task where
  "task_X = \<lparr>t_id = 3, t_name = ''X'', t_priority = ''high'', t_done = True,
             t_created_at = ''2024-01-01 09:10:00''\<rparr>"

definition task_L :: task where
  "task_L = \<lparr>t_id = 4, t_name = ''L'', t_priority = ''low'', t_done = False,
             t_created_at = ''2024-01-01 09:15:00''\<rparr>"




definition task_C :: task where
  "task_C = \<lparr>t_id = 2, t_name = ''C'', t_priority = ''medium'', t_done = False,
             t_created_at = ''2024-01-01 09:20:00''\<rparr>"

definition store_of :: "task list \<Rightarrow> todo" where
  "store_of ts = \<lparr>tasks = ts, filename = ''tasks.json'', stdout = [], fs = Map.empty\<rparr>"


definition store_AB :: todo where
  "store_AB = store_of [task_A, task_B]"



definition store_done :: todo where
  "store_done = store_of [task_A\<lparr>t_done := True\<rparr>]"

definition store_mixed :: todo where
  "store_mixed = store_of [task_X, task_B, task_A, task_L]"




section \<open>Properties\<close>

subsection \<open>Helper facts\<close>

lemma in_PRIORITY_COLORS_iff:
  "in_PRIORITY_COLORS p \<longleftrightarrow> p = ''high'' \<or> p = ''medium'' \<or> p = ''low''"
  by (auto simp: in_PRIORITY_COLORS_def keys_def PRIORITY_COLORS_def)

lemma join_keys: "join '','' (keys PRIORITY_COLORS) = ''high,medium,low''"
  by (simp add: keys_def PRIORITY_COLORS_def)

lemma str_int_2: "str_int 2 = ''2''"
  by (simp add: str_int_def str_nat.simps digit_char_def)

lemma str_int_3: "str_int 3 = ''3''"
  by (simp add: str_int_def str_nat.simps digit_char_def)

lemma priority_rank_values:
  "priority_rank ''high'' = 0" "priority_rank ''medium'' = 1" "priority_rank ''low'' = 2"
  by (simp_all add: priority_rank_def priority_order_def)

text \<open>The loops stop at the first task with the id.\<close>

lemma update_loop_first:
  assumes "\<forall>t\<in>set pre. t_id t \<noteq> i" and "t_id task = i"
  shows "update_loop i name priority (pre @ task # post) =
           Some (pre @ fst (update_body name priority task) # post,
                 snd (update_body name priority task))"
  using assms by (induction pre) (auto split: prod.splits)


text \<open>Without a task with the id, the loops of update and mark end without a result.\<close>

lemma update_loop_absent:
  "\<forall>t\<in>set ts. t_id t \<noteq> i \<Longrightarrow> update_loop i name priority ts = None"
  by (induction ts) auto

lemma mark_loop_absent:
  "\<forall>t\<in>set ts. t_id t \<noteq> i \<Longrightarrow> mark_loop i ts = None"
  by (induction ts) auto

text \<open>The delete loop prints at every task it passes.\<close>

lemma delete_loop_absent:
  "\<forall>t\<in>set ts. t_id t \<noteq> i \<Longrightarrow>
     delete_loop i ts = (ts, replicate (length ts) (''No task found with ID '' @ str_int i))"
  by (induction ts) auto

text \<open>Positions in a list that is sorted by a key.\<close>

lemma sorted_key_position:
  assumes "sorted (map f xs)" and "i < length xs" and "j < length xs"
    and "f (xs ! i) < f (xs ! j)"
  shows "i < j"
proof (rule ccontr)
  assume "\<not> i < j"
  then have "j \<le> i" by simp
  have "i < length (map f xs)" using assms(2) by simp
  from sorted_nth_mono [OF assms(1) \<open>j \<le> i\<close> this]
  have "f (xs ! j) \<le> f (xs ! i)" using assms(2,3) by simp
  with assms(4) show False by simp
qed

lemma pending_key_less: "\<not> t_done a \<Longrightarrow> t_done b \<Longrightarrow> sort_key_of a < sort_key_of b"
  by (simp add: sort_key_of_def less_prod_def)

lemma rank_key_less:
  "t_done a = t_done b \<Longrightarrow> priority_rank (t_priority a) < priority_rank (t_priority b)
     \<Longrightarrow> sort_key_of a < sort_key_of b"
  by (simp add: sort_key_of_def less_prod_def)




text \<open>The order of a sorted task list, stated on the fields of the tasks.\<close>

lemma sort_pending_first:
  assumes "i < length ys" and "j < length ys"
    and "\<not> t_done (sort_key sort_key_of ys ! i)" and "t_done (sort_key sort_key_of ys ! j)"
  shows "i < j"
proof -
  have "sorted (map sort_key_of (sort_key sort_key_of ys))" by simp
  from sorted_key_position [OF this, of i j] assms show ?thesis
    by (simp add: pending_key_less)
qed

lemma sort_rank_order:
  assumes "i < length ys" and "j < length ys"
    and "t_done (sort_key sort_key_of ys ! i) = t_done (sort_key sort_key_of ys ! j)"
    and "priority_rank (t_priority (sort_key sort_key_of ys ! i))
           < priority_rank (t_priority (sort_key sort_key_of ys ! j))"
  shows "i < j"
proof -
  have "sorted (map sort_key_of (sort_key sort_key_of ys))" by simp
  from sorted_key_position [OF this, of i j] assms show ?thesis
    by (simp add: rank_key_less)
qed

lemma sort_stable_fields:
  "filter (\<lambda>t. t_done t = d \<and> priority_rank (t_priority t) = r) (sort_key sort_key_of ys) =
   filter (\<lambda>t. t_done t = d \<and> priority_rank (t_priority t) = r) ys"
  using sort_key_stable [of sort_key_of "(d, r)" ys] by (simp add: sort_key_of_def)



subsection \<open>Update with an invalid priority\<close>

text \<open>
  What the method does in general: with a non-empty name and a priority outside the three
  values, the first task with the id gets the name, the invalid-priority line is printed
  and the list is not sorted.
\<close>

lemma update_invalid_priority_general:
  assumes "tasks w = pre @ task # post" and "t_id task = i" and "\<forall>t\<in>set pre. t_id t \<noteq> i"
    and "x \<noteq> []" and "p \<noteq> []" and "\<not> in_PRIORITY_COLORS p"
  shows "update_task i (Some x) (Some p) w =
           w\<lparr>tasks := pre @ task\<lparr>t_name := x\<rparr> # post,
              stdout := stdout w @ [''Invalid priorty. Choose from: high,medium,low'']\<rparr>"
proof -
  have "update_body (Some x) (Some p) task = (task\<lparr>t_name := x\<rparr>, False)"
    using assms(4-6) by (simp add: update_body_def)
  with update_loop_first [OF assms(3) assms(2), of "Some x" "Some p" post] assms(1)
  have "update_loop i (Some x) (Some p) (tasks w) = Some (pre @ task\<lparr>t_name := x\<rparr> # post, False)"
    by simp
  then show ?thesis
    by (simp add: update_task_def print_def join_keys)
qed

text \<open>
  C1. The claim: an update with a name and a priority outside \<open>high\<close>, \<open>medium\<close>, \<open>low\<close>
  reports the invalid priority and leaves the task as it was. The method assigns the name
  before it checks the priority, and the check returns without undoing the assignment: on
  the store of the tasks \<open>A\<close> (id 1) and \<open>B\<close> (id 2), \<open>update_task(1, "X", "bogus")\<close>
  prints the invalid-priority line and task 1 is named \<open>X\<close> afterwards.
\<close>

theorem update_invalid_priority_renames:
  "tasks (update_task 1 (Some ''X'') (Some ''bogus'') store_AB) = [task_A\<lparr>t_name := ''X''\<rparr>, task_B]
   \<and> t_name task_A = ''A''
   \<and> stdout (update_task 1 (Some ''X'') (Some ''bogus'') store_AB) =
       [''Invalid priorty. Choose from: high,medium,low'']"
  by (simp add: update_task_def store_AB_def store_of_def task_A_def task_B_def update_body_def
        in_PRIORITY_COLORS_iff print_def join_keys)

subsection \<open>Delete of an id that is absent\<close>

text \<open>
  Update and mark report an absent id with one line, printed after their loops.
\<close>

lemma update_absent_reports_once:
  "\<forall>t\<in>set (tasks w). t_id t \<noteq> i \<Longrightarrow>
     update_task i name priority w = w\<lparr>stdout := stdout w @ [''No task found with ID '' @ str_int i]\<rparr>"
  by (simp add: update_task_def update_loop_absent print_def)

lemma mark_absent_reports_once:
  "\<forall>t\<in>set (tasks w). t_id t \<noteq> i \<Longrightarrow>
     mark_done i w = w\<lparr>stdout := stdout w @ [''No task found with ID '' @ str_int i]\<rparr>"
  by (simp add: mark_done_def mark_loop_absent print_def)

text \<open>Delete prints the line as many times as the list has tasks.\<close>

lemma delete_absent_reports_each:
  "\<forall>t\<in>set (tasks w). t_id t \<noteq> i \<Longrightarrow>
     delete_task i w =
       w\<lparr>stdout := stdout w @ replicate (length (tasks w)) (''No task found with ID '' @ str_int i)\<rparr>"
  by (simp add: delete_task_def delete_loop_absent)

text \<open>
  C2. The claim: a delete of an id no task has reports not-found once, after the whole
  list was scanned. The \<open>print\<close> stands inside the loop, so the line is printed once
  for every task passed: twice on the store of two tasks, and not at all on the empty
  store.
\<close>

theorem delete_absent_reports:
  "stdout (delete_task 3 store_AB) = [''No task found with ID 3'', ''No task found with ID 3'']
   \<and> tasks (delete_task 3 store_AB) = tasks store_AB
   \<and> stdout (delete_task 3 store_empty) = []"
  by (simp add: delete_task_def store_AB_def store_of_def store_empty_def task_A_def task_B_def
        str_int_3)

subsection \<open>The order after a sort\<close>

text \<open>
  C3. After the sort, a task that is not done stands before every task that is done;
  of two tasks with the same \<open>done\<close>, the one with the smaller rank (\<open>high\<close> is 0,
  \<open>medium\<close> is 1, \<open>low\<close> is 2) stands first; the tasks of one key are in the order they
  had before the sort; and the sort only permutes the list.
\<close>

theorem sort_tasks_correct:
  "let xs = tasks (sort_tasks w); ys = tasks w in
     (\<forall>i j. i < length xs \<and> j < length xs \<and> \<not> t_done (xs ! i) \<and> t_done (xs ! j) \<longrightarrow> i < j)
   \<and> (\<forall>i j. i < length xs \<and> j < length xs \<and> t_done (xs ! i) = t_done (xs ! j)
            \<and> priority_rank (t_priority (xs ! i)) < priority_rank (t_priority (xs ! j)) \<longrightarrow> i < j)
   \<and> (\<forall>k. filter (\<lambda>t. sort_key_of t = k) xs = filter (\<lambda>t. sort_key_of t = k) ys)
   \<and> mset xs = mset ys
   \<and> priority_rank ''high'' = 0 \<and> priority_rank ''medium'' = 1 \<and> priority_rank ''low'' = 2"
proof -
  define xs where "xs = sort_key sort_key_of (tasks w)"
  have srt: "sorted (map sort_key_of xs)"
    by (simp add: xs_def)
  have a: "\<forall>i j. i < length xs \<and> j < length xs \<and> \<not> t_done (xs ! i) \<and> t_done (xs ! j) \<longrightarrow> i < j"
  proof (intro allI impI)
    fix i j
    assume h: "i < length xs \<and> j < length xs \<and> \<not> t_done (xs ! i) \<and> t_done (xs ! j)"
    then have "sort_key_of (xs ! i) < sort_key_of (xs ! j)"
      by (simp add: pending_key_less)
    with h show "i < j"
      using sorted_key_position [OF srt, of i j] by simp
  qed
  have b: "\<forall>i j. i < length xs \<and> j < length xs \<and> t_done (xs ! i) = t_done (xs ! j)
            \<and> priority_rank (t_priority (xs ! i)) < priority_rank (t_priority (xs ! j)) \<longrightarrow> i < j"
  proof (intro allI impI)
    fix i j
    assume h: "i < length xs \<and> j < length xs \<and> t_done (xs ! i) = t_done (xs ! j)
            \<and> priority_rank (t_priority (xs ! i)) < priority_rank (t_priority (xs ! j))"
    then have "sort_key_of (xs ! i) < sort_key_of (xs ! j)"
      by (simp add: rank_key_less)
    with h show "i < j"
      using sorted_key_position [OF srt, of i j] by simp
  qed
  have c: "\<forall>k. filter (\<lambda>t. sort_key_of t = k) xs = filter (\<lambda>t. sort_key_of t = k) (tasks w)"
    by (simp add: xs_def sort_key_stable)
  have d: "mset xs = mset (tasks w)"
    by (simp add: xs_def)
  have e: "tasks (sort_tasks w) = xs"
    by (simp add: sort_tasks_def xs_def)
  show ?thesis
    unfolding Let_def e
    apply (intro conjI)
          apply (rule a)
         apply (rule b)
        apply (rule c)
       apply (rule d)
      apply (rule priority_rank_values)+
    done
qed

lemma sorted_mixed: "tasks (sort_tasks store_mixed) = [task_A, task_B, task_L, task_X]"
  by (simp add: sort_tasks_def store_mixed_def store_of_def task_A_def task_B_def task_X_def
        task_L_def sort_key_of_def priority_rank_def priority_order_def)

theorem sort_tasks_correct_witness:
  "tasks (sort_tasks store_mixed) = [task_A, task_B, task_L, task_X]
   \<and> \<not> t_done (tasks (sort_tasks store_mixed) ! 2) \<and> t_done (tasks (sort_tasks store_mixed) ! 3)
   \<and> t_done (tasks (sort_tasks store_mixed) ! 0) = t_done (tasks (sort_tasks store_mixed) ! 1)
   \<and> priority_rank (t_priority (tasks (sort_tasks store_mixed) ! 0))
       < priority_rank (t_priority (tasks (sort_tasks store_mixed) ! 1))
   \<and> filter (\<lambda>t. sort_key_of t = (False, 2)) (tasks (sort_tasks store_mixed)) = [task_B, task_L]
   \<and> filter (\<lambda>t. sort_key_of t = (False, 2)) (tasks store_mixed) = [task_B, task_L]
   \<and> mset (tasks (sort_tasks store_mixed)) = mset (tasks store_mixed)"
proof -
  from sort_tasks_correct [of store_mixed]
  have stable: "filter (\<lambda>t. sort_key_of t = (False, 2)) (tasks (sort_tasks store_mixed)) =
                  filter (\<lambda>t. sort_key_of t = (False, 2)) (tasks store_mixed)"
    and perm: "mset (tasks (sort_tasks store_mixed)) = mset (tasks store_mixed)"
    unfolding Let_def by blast+
  have orig: "filter (\<lambda>t. sort_key_of t = (False, 2)) (tasks store_mixed) = [task_B, task_L]"
    by (simp add: store_mixed_def store_of_def task_A_def task_B_def task_X_def task_L_def
          sort_key_of_def priority_rank_def priority_order_def)
  have flags: "\<not> t_done task_L" "t_done task_X" "t_done task_A = t_done task_B"
    "priority_rank (t_priority task_A) < priority_rank (t_priority task_B)"
    by (simp_all add: task_A_def task_B_def task_X_def task_L_def priority_rank_def
          priority_order_def)
  show ?thesis
    using stable perm orig flags by (simp add: sorted_mixed)
qed

subsection \<open>Save, then load\<close>



subsection \<open>The completed section of the export\<close>

text \<open>
  C5. The claim: every completed task is written as the line
  \<open>- [x] [!<priority>] <name>\<close>. The checkbox of the completed loop is a list holding the
  string, and the f-string writes the list: the line of the completed task \<open>A\<close> starts
  with \<open>['- [x] ']\<close>.
\<close>

theorem export_completed_line:
  "export_to_markdown ''20240102_100000'' ''2024-01-02 10:00:00'' store_done =
     (Some ''todo_export_20240102_100000.md'',
      store_done
        \<lparr>stdout := [''Tasks exported to todo_export_20240102_100000.md''],
         fs := [''todo_export_20240102_100000.md'' \<mapsto>
                 ''# Todo List\<newline>\<newline>Exported on : 2024-01-02 10:00:00\<newline>\<newline>''
                 @ ''## Pending Tasks\<newline>\<newline>''
                 @ ''\<newline>## Completed Tasks\<newline>\<newline>''
                 @ ''['' @ [CHR 0x27] @ ''- [x] '' @ [CHR 0x27] @ ''][!high] A\<newline>'']\<rparr>)"
  by (simp add: export_to_markdown_def store_done_def store_of_def task_A_def print_def
        str_list1_def priority_tag_def in_PRIORITY_COLORS_iff Let_def)

subsection \<open>Marking a task twice\<close>




subsection \<open>Ids after a delete\<close>

text \<open>
  C7. The claim: no two tasks of the collection ever share an id. A new task gets the
  length of the list plus one: after \<open>A\<close> and \<open>B\<close> are added and task 1 is deleted, the
  task added next gets the id 2, which \<open>B\<close> holds.
\<close>

theorem delete_then_add_duplicates_id:
  "map t_id (tasks (add_task_default ''C'' ''2024-01-01 09:10:00''
       (delete_task 1
         (add_task_default ''B'' ''2024-01-01 09:05:00''
           (add_task_default ''A'' ''2024-01-01 09:00:00'' store_empty))))) = [2, 2]"
  by (simp add: add_task_default_def add_task_def in_PRIORITY_COLORS_iff sort_tasks_def print_def
        Let_def delete_task_def store_empty_def sort_key_of_def)

subsection \<open>Export of the empty collection\<close>

text \<open>
  C8. With no task, the export prints \<open>No tasks to export.\<close>, returns nothing and
  leaves the files as they were: nothing else of the state changes.
\<close>

theorem export_empty_noop:
  "tasks w = [] \<Longrightarrow>
     export_to_markdown stamp_name stamp_line w =
       (None, w\<lparr>stdout := stdout w @ [''No tasks to export.'']\<rparr>)"
  by (simp add: export_to_markdown_def print_def)

theorem export_empty_noop_witness:
  "tasks store_empty = [] \<and>
   export_to_markdown ''20240101_090000'' ''2024-01-01 09:00:00'' store_empty =
     (None, store_empty\<lparr>stdout := [''No tasks to export.'']\<rparr>)"
  using export_empty_noop [of store_empty "''20240101_090000''" "''2024-01-01 09:00:00''"]
  by (simp add: store_empty_def)

subsection \<open>Add with the default priority\<close>

text \<open>
  C9. A task added without a priority has the priority \<open>medium\<close>, is not done, and has
  the length of the list plus one as its id. The list afterwards holds the tasks it held
  and the new one. It is sorted: a task that is not done stands before every task that
  is done, and of two tasks with the same \<open>done\<close> the one with the smaller rank
  (\<open>high\<close> is 0, \<open>medium\<close> is 1, \<open>low\<close> is 2) stands first. The tasks of one \<open>done\<close>
  value and rank are in the order of the old list with the new task appended, so the new
  task is the last of the pending tasks of rank 1. \<open>Task added\<close> is printed.
\<close>

theorem add_task_default_spec:
  "let new = \<lparr>t_id = int (length (tasks w)) + 1, t_name = name, t_priority = ''medium'',
               t_done = False, t_created_at = now\<rparr>;
       xs = tasks (add_task_default name now w)
   in mset xs = mset (tasks w) + {#new#}
    \<and> (\<forall>i j. i < length xs \<and> j < length xs \<and> \<not> t_done (xs ! i) \<and> t_done (xs ! j) \<longrightarrow> i < j)
    \<and> (\<forall>i j. i < length xs \<and> j < length xs \<and> t_done (xs ! i) = t_done (xs ! j)
            \<and> priority_rank (t_priority (xs ! i)) < priority_rank (t_priority (xs ! j)) \<longrightarrow> i < j)
    \<and> (\<forall>d r. filter (\<lambda>t. t_done t = d \<and> priority_rank (t_priority t) = r) xs =
              filter (\<lambda>t. t_done t = d \<and> priority_rank (t_priority t) = r) (tasks w @ [new]))
    \<and> priority_rank ''high'' = 0 \<and> priority_rank ''medium'' = 1 \<and> priority_rank ''low'' = 2
    \<and> stdout (add_task_default name now w) = stdout w @ [''Task added: '' @ name]"
proof -
  define new where "new = \<lparr>t_id = int (length (tasks w)) + 1, t_name = name,
    t_priority = ''medium'', t_done = False, t_created_at = now\<rparr>"
  define ys where "ys = tasks w @ [new]"
  define xs where "xs = sort_key sort_key_of ys"
  have res: "tasks (add_task_default name now w) = xs"
    by (simp add: add_task_default_def add_task_def in_PRIORITY_COLORS_iff sort_tasks_def
          print_def Let_def xs_def ys_def new_def)
  have out: "stdout (add_task_default name now w) = stdout w @ [''Task added: '' @ name]"
    by (simp add: add_task_default_def add_task_def in_PRIORITY_COLORS_iff sort_tasks_def
          print_def Let_def)
  have len: "length xs = length ys"
    by (simp add: xs_def)
  have a: "mset xs = mset (tasks w) + {#new#}"
    by (simp add: xs_def ys_def)
  have b: "\<forall>i j. i < length xs \<and> j < length xs \<and> \<not> t_done (xs ! i) \<and> t_done (xs ! j) \<longrightarrow> i < j"
  proof (intro allI impI)
    fix i j
    assume "i < length xs \<and> j < length xs \<and> \<not> t_done (xs ! i) \<and> t_done (xs ! j)"
    then show "i < j"
      using sort_pending_first [of i ys j] by (simp add: xs_def)
  qed
  have c: "\<forall>i j. i < length xs \<and> j < length xs \<and> t_done (xs ! i) = t_done (xs ! j)
            \<and> priority_rank (t_priority (xs ! i)) < priority_rank (t_priority (xs ! j)) \<longrightarrow> i < j"
  proof (intro allI impI)
    fix i j
    assume "i < length xs \<and> j < length xs \<and> t_done (xs ! i) = t_done (xs ! j)
            \<and> priority_rank (t_priority (xs ! i)) < priority_rank (t_priority (xs ! j))"
    then show "i < j"
      using sort_rank_order [of i ys j] by (simp add: xs_def)
  qed
  have d: "\<forall>d r. filter (\<lambda>t. t_done t = d \<and> priority_rank (t_priority t) = r) xs =
              filter (\<lambda>t. t_done t = d \<and> priority_rank (t_priority t) = r) (tasks w @ [new])"
    by (simp only: xs_def ys_def [symmetric] sort_stable_fields) simp
  show ?thesis
    unfolding Let_def new_def [symmetric] res out
    apply (intro conjI)
           apply (rule a)
          apply (rule b)
         apply (rule c)
        apply (rule d)
       apply (rule priority_rank_values)+
    apply (rule refl)
    done
qed

theorem add_task_default_spec_witness:
  "tasks (add_task_default ''C'' ''2024-01-01 09:20:00'' store_done) = [task_C, task_A\<lparr>t_done := True\<rparr>]
   \<and> tasks store_done = [task_A\<lparr>t_done := True\<rparr>]
   \<and> \<not> t_done (tasks (add_task_default ''C'' ''2024-01-01 09:20:00'' store_done) ! 0)
   \<and> t_done (tasks (add_task_default ''C'' ''2024-01-01 09:20:00'' store_done) ! 1)
   \<and> mset (tasks (add_task_default ''C'' ''2024-01-01 09:20:00'' store_done)) =
       mset (tasks store_done) + {#task_C#}
   \<and> stdout (add_task_default ''C'' ''2024-01-01 09:20:00'' store_done) = [''Task added: C'']"
proof -
  have new: "\<lparr>t_id = int (length (tasks store_done)) + 1, t_name = ''C'', t_priority = ''medium'',
               t_done = False, t_created_at = ''2024-01-01 09:20:00''\<rparr> = task_C"
    by (simp add: store_done_def store_of_def task_C_def)
  from add_task_default_spec [of store_done "''C''" "''2024-01-01 09:20:00''"]
  have perm: "mset (tasks (add_task_default ''C'' ''2024-01-01 09:20:00'' store_done)) =
                mset (tasks store_done) + {#task_C#}"
    and out: "stdout (add_task_default ''C'' ''2024-01-01 09:20:00'' store_done) =
                stdout store_done @ [''Task added: '' @ ''C'']"
    unfolding Let_def new by blast+
  have ev: "tasks (add_task_default ''C'' ''2024-01-01 09:20:00'' store_done) =
              [task_C, task_A\<lparr>t_done := True\<rparr>]"
    by (simp add: add_task_default_def add_task_def in_PRIORITY_COLORS_iff sort_tasks_def
          print_def Let_def store_done_def store_of_def task_A_def task_C_def sort_key_of_def
          priority_rank_def priority_order_def)
  have st: "tasks store_done = [task_A\<lparr>t_done := True\<rparr>]" "stdout store_done = []"
    by (simp_all add: store_done_def store_of_def)
  have fl: "\<not> t_done task_C" "t_done (task_A\<lparr>t_done := True\<rparr>)"
    by (simp_all add: task_C_def)
  show ?thesis
    using perm out st fl by (simp add: ev)
qed

subsection \<open>Update with an empty name\<close>

text \<open>
  C10. An update with the empty string as the name and one of the three priorities
  changes the priority of the first task with the id and no other field of it: the name,
  the id, the \<open>done\<close> value and the creation time stay. The other tasks stay as they
  are, the list is sorted, and \<open>Updated task\<close> is printed.
\<close>

theorem update_empty_name_keeps_name:
  assumes "tasks w = pre @ task # post" and "t_id task = i" and "\<forall>t\<in>set pre. t_id t \<noteq> i"
    and "p = ''high'' \<or> p = ''medium'' \<or> p = ''low''"
  shows "tasks (update_task i (Some []) (Some p) w) =
           sort_key sort_key_of (pre @ task\<lparr>t_priority := p\<rparr> # post)
         \<and> stdout (update_task i (Some []) (Some p) w) = stdout w @ [''Updated task '' @ str_int i]"
proof -
  have body: "update_body (Some []) (Some p) task = (task\<lparr>t_priority := p\<rparr>, True)"
    using assms(4) by (auto simp: update_body_def in_PRIORITY_COLORS_iff)
  have "update_loop i (Some []) (Some p) (tasks w) = Some (pre @ task\<lparr>t_priority := p\<rparr> # post, True)"
    using update_loop_first [OF assms(3) assms(2), of "Some []" "Some p" post] assms(1) body
    by simp
  then show ?thesis
    by (simp add: update_task_def sort_tasks_def print_def)
qed

theorem update_empty_name_keeps_name_witness:
  "tasks store_AB = [task_A] @ task_B # [] \<and> t_id task_B = 2 \<and> t_id task_A \<noteq> 2
   \<and> tasks (update_task 2 (Some []) (Some ''high'') store_AB) =
       [task_A, task_B\<lparr>t_priority := ''high''\<rparr>]
   \<and> t_name (task_B\<lparr>t_priority := ''high''\<rparr>) = ''B''
   \<and> stdout (update_task 2 (Some []) (Some ''high'') store_AB) = [''Updated task 2'']"
proof -
  have h1: "tasks store_AB = [task_A] @ task_B # []"
    by (simp add: store_AB_def store_of_def)
  have h2: "t_id task_B = 2"
    by (simp add: task_B_def)
  have h3: "\<forall>t\<in>set [task_A]. t_id t \<noteq> 2"
    by (simp add: task_A_def)
  have h4: "''high'' = ''high'' \<or> ''high'' = ''medium'' \<or> ''high'' = ''low''"
    by simp
  have srt: "sort_key sort_key_of ([task_A] @ task_B\<lparr>t_priority := ''high''\<rparr> # []) =
               [task_A, task_B\<lparr>t_priority := ''high''\<rparr>]"
    by (simp add: task_A_def task_B_def sort_key_of_def priority_rank_def priority_order_def)
  from update_empty_name_keeps_name [OF h1 h2 h3 h4] srt h1 h2 h3
  show ?thesis
    by (simp add: str_int_2 store_AB_def store_of_def task_B_def)
qed

end
